theory Spec2Isabelle
  imports Main "HOL-Library.Word"
begin

section \<open>JavaScript values used by the views\<close>

text \<open>
  A JavaScript string is a sequence of UTF-16 code units. \<open>lit\<close> embeds the ASCII
  literals that occur in the source.
\<close>

type_synonym code_unit = "16 word"
type_synonym jsstring = "code_unit list"

definition lit :: "string \<Rightarrow> jsstring" where
  "lit cs = map (\<lambda>c. of_nat (of_char c)) cs"

text \<open>
  \<open>x ? .. : ..\<close> and \<open>!x\<close> on a value of type \<open>string | undefined\<close>: \<open>undefined\<close> and
  the empty string are falsy. \<open>truthy_string\<close> returns the string when it is truthy.
\<close>

definition truthy_string :: "jsstring option \<Rightarrow> jsstring option" where
  "truthy_string x = (case x of None \<Rightarrow> None | Some t \<Rightarrow> if t = [] then None else Some t)"

text \<open>
  \<open>String.prototype.trim\<close> strips the code units of ECMAScript's WhiteSpace and
  LineTerminator productions from both ends.
\<close>

definition isWhiteSpace :: "code_unit \<Rightarrow> bool" where
  "isWhiteSpace c =
     (c = 0x0009 \<or> c = 0x000A \<or> c = 0x000B \<or> c = 0x000C \<or> c = 0x000D \<or> c = 0x0020
      \<or> c = 0x00A0 \<or> c = 0x1680 \<or> (0x2000 \<le> c \<and> c \<le> 0x200A) \<or> c = 0x2028
      \<or> c = 0x2029 \<or> c = 0x202F \<or> c = 0x205F \<or> c = 0x3000 \<or> c = 0xFEFF)"

definition trim :: "jsstring \<Rightarrow> jsstring" where
  "trim t = rev (dropWhile isWhiteSpace (rev (dropWhile isWhiteSpace t)))"

text \<open>
  A failure of the remote client is an object whose \<open>message\<close> may be missing.
  \<open>error.message || fallback\<close> takes the fallback when the message is missing or empty.
\<close>

datatype err = Err (message: "jsstring option")

definition message_or :: "err \<Rightarrow> jsstring \<Rightarrow> jsstring" where
  "message_or e fallback =
     (case message e of None \<Rightarrow> fallback | Some m \<Rightarrow> if m = [] then fallback else m)"

text \<open>
  An awaited promise either fulfils with a value or rejects, and a rejection is thrown
  at the \<open>await\<close>. The remote client fulfils a mutation with an object whose \<open>error\<close>
  field is null on success, and a read with an object whose \<open>data\<close> field may be null.
\<close>

datatype 'a settled = Fulfilled 'a | Rejected err

type_synonym mutation_result = "err option settled"

text \<open>\<open>xs?.length || 0\<close>\<close>

definition length_or_0 :: "'a list option \<Rightarrow> int" where
  "length_or_0 xs = (case xs of None \<Rightarrow> 0 | Some l \<Rightarrow> int (length l))"

text \<open>\<open>xs || []\<close>\<close>

definition list_or_empty :: "'a list option \<Rightarrow> 'a list" where
  "list_or_empty xs = (case xs of None \<Rightarrow> [] | Some l \<Rightarrow> l)"

section \<open>Rows of the remote collections\<close>

record profile_row =
  profile_id :: jsstring
  username :: jsstring
  full_name :: "jsstring option"
  avatar_url :: "jsstring option"
  bio :: "jsstring option"

record post_row =
  post_id :: jsstring
  post_content :: jsstring
  post_created_at :: jsstring
  post_user_id :: jsstring
  post_profiles_username :: jsstring
  post_profiles_full_name :: "jsstring option"
  post_profiles_avatar_url :: "jsstring option"

record like_row =
  like_post_id :: jsstring
  like_user_id :: jsstring

record comment_row =
  comment_id :: jsstring
  comment_post_id :: jsstring
  comment_user_id :: jsstring
  comment_content :: jsstring
  comment_created_at :: jsstring

record follow_row =
  follower_id :: jsstring
  following_id :: jsstring

record session =
  session_user_id :: jsstring

section \<open>Effects of a handler\<close>

text \<open>
  Every call on the remote client, every notification, every navigation, every line on
  the console and every invocation of a callback prop is appended to a log kept beside
  the component's state cells.
\<close>

datatype remote_call =
    AuthGetSession
  | AuthGetUser
  | AuthSignOut
  | ProfilesSelectById jsstring
  | PostsSelectAll
  | PostsSelectByUser jsstring
  | PostsInsert jsstring jsstring
  | PostsDelete jsstring
  | LikesSelectByPost jsstring
  | LikesSelectByPostUser jsstring jsstring
  | LikesInsert jsstring jsstring
  | LikesDelete jsstring jsstring
  | CommentsSelectByPost jsstring
  | CommentsInsert jsstring jsstring jsstring
  | FollowsSelectByFollowing jsstring
  | FollowsSelectByFollower jsstring
  | FollowsSelectByPair jsstring jsstring
  | FollowsInsert jsstring "jsstring option"
  | FollowsDelete jsstring "jsstring option"

datatype toast = ToastError jsstring | ToastSuccess jsstring

datatype callback = OnDelete | OnPostCreated

record effects =
  calls :: "remote_call list"
  toasts :: "toast list"
  navigations :: "jsstring list"
  console_errors :: "(jsstring \<times> err) list"
  callbacks :: "callback list"

definition issue :: "remote_call \<Rightarrow> 'a effects_scheme \<Rightarrow> 'a effects_scheme" where
  "issue c s = s\<lparr>calls := calls s @ [c]\<rparr>"

definition toast_error :: "jsstring \<Rightarrow> 'a effects_scheme \<Rightarrow> 'a effects_scheme" where
  "toast_error m s = s\<lparr>toasts := toasts s @ [ToastError m]\<rparr>"

definition toast_success :: "jsstring \<Rightarrow> 'a effects_scheme \<Rightarrow> 'a effects_scheme" where
  "toast_success m s = s\<lparr>toasts := toasts s @ [ToastSuccess m]\<rparr>"

definition navigate :: "jsstring \<Rightarrow> 'a effects_scheme \<Rightarrow> 'a effects_scheme" where
  "navigate p s = s\<lparr>navigations := navigations s @ [p]\<rparr>"

definition console_error :: "jsstring \<Rightarrow> err \<Rightarrow> 'a effects_scheme \<Rightarrow> 'a effects_scheme" where
  "console_error l e s = s\<lparr>console_errors := console_errors s @ [(l, e)]\<rparr>"

definition invoke :: "callback \<Rightarrow> 'a effects_scheme \<Rightarrow> 'a effects_scheme" where
  "invoke c s = s\<lparr>callbacks := callbacks s @ [c]\<rparr>"

section \<open>Navigation bar\<close>

text \<open>
  \<open>handleLogout\<close> has no state of its own and no \<open>try\<close>: a rejected \<open>signOut\<close> ends it.
\<close>

definition handleLogout :: "unit settled \<Rightarrow> effects \<Rightarrow> effects" where
  "handleLogout res s =
     (let s1 = issue AuthSignOut s in
      case res of
        Rejected e \<Rightarrow> s1
      | Fulfilled x \<Rightarrow>
          navigate (lit ''/auth'') (toast_success (lit ''Logged out successfully'') s1))"

section \<open>Post card\<close>

text \<open>
  The state cells of one \<open>PostCard\<close>. A counter is a JavaScript number that starts from
  an array length and moves by one, so it is an integer, and it may go below zero.

  A function of the component reads the state variables of the render that created it
  (a closure over constants) and writes the state cells through the setters. Each model
  therefore takes the rendered snapshot \<open>r\<close> it closes over and the cells \<open>s\<close> it updates;
  a functional update \<open>setX(prev => ..)\<close> reads \<open>s\<close>.
\<close>

record PostCard_state = effects +
  isLiked :: bool
  likesCount :: int
  commentsCount :: int
  showComments :: bool
  comments :: "comment_row list"
  newComment :: jsstring
  isLoadingComment :: bool

definition PostCard_initial :: PostCard_state where
  "PostCard_initial =
     \<lparr>calls = [], toasts = [], navigations = [], console_errors = [], callbacks = [],
      isLiked = False, likesCount = 0, commentsCount = 0, showComments = False,
      comments = [], newComment = [], isLoadingComment = False\<rparr>"

text \<open>
  \<open>fetchLikesAndComments\<close> has no \<open>try\<close>: a rejected read ends it there, with the state
  cells as they are.
\<close>

definition fetchLikesAndComments ::
  "post_row \<Rightarrow> like_row list option settled \<Rightarrow> comment_row list option settled
     \<Rightarrow> PostCard_state \<Rightarrow> PostCard_state" where
  "fetchLikesAndComments post likesRes commentsRes s =
     (let s1 = issue (LikesSelectByPost (post_id post)) s in
      case likesRes of
        Rejected e \<Rightarrow> s1
      | Fulfilled likes \<Rightarrow>
          (let s2 = issue (CommentsSelectByPost (post_id post)) s1 in
           case commentsRes of
             Rejected e \<Rightarrow> s2
           | Fulfilled cs \<Rightarrow>
               s2\<lparr>likesCount := length_or_0 likes,
                  commentsCount := length_or_0 cs,
                  comments := list_or_empty cs\<rparr>))"

definition checkIfLiked ::
  "post_row \<Rightarrow> jsstring option \<Rightarrow> like_row option settled \<Rightarrow> PostCard_state \<Rightarrow> PostCard_state" where
  "checkIfLiked post currentUserId res s =
     (case truthy_string currentUserId of
        None \<Rightarrow> s
      | Some uid \<Rightarrow>
          (let s1 = issue (LikesSelectByPostUser (post_id post) uid) s in
           case res of
             Rejected e \<Rightarrow> s1
           | Fulfilled d \<Rightarrow> s1\<lparr>isLiked := (d \<noteq> None)\<rparr>))"

text \<open>
  \<open>handleLike\<close> awaits the mutation without reading its \<open>error\<close> field, so a fulfilled
  call of either kind is followed by the local update; only a rejection reaches \<open>catch\<close>.
\<close>

definition handleLike ::
  "PostCard_state \<Rightarrow> post_row \<Rightarrow> jsstring option \<Rightarrow> mutation_result
     \<Rightarrow> PostCard_state \<Rightarrow> PostCard_state" where
  "handleLike r post currentUserId res s =
     (case truthy_string currentUserId of
        None \<Rightarrow> toast_error (lit ''Please log in to like posts'') s
      | Some uid \<Rightarrow>
          (if isLiked r then
             (let s1 = issue (LikesDelete (post_id post) uid) s in
              case res of
                Rejected e \<Rightarrow> toast_error (message_or e (lit ''Failed to like post'')) s1
              | Fulfilled x \<Rightarrow> s1\<lparr>isLiked := False, likesCount := likesCount s1 - 1\<rparr>)
           else
             (let s1 = issue (LikesInsert (post_id post) uid) s in
              case res of
                Rejected e \<Rightarrow> toast_error (message_or e (lit ''Failed to like post'')) s1
              | Fulfilled x \<Rightarrow> s1\<lparr>isLiked := True, likesCount := likesCount s1 + 1\<rparr>)))"

text \<open>
  \<open>handleComment\<close>. The refetch is started without \<open>await\<close>; it writes cells that the
  rest of the handler does not touch, so it is sequenced where it is called.
\<close>

definition handleComment ::
  "PostCard_state \<Rightarrow> post_row \<Rightarrow> jsstring option \<Rightarrow> mutation_result
     \<Rightarrow> like_row list option settled \<Rightarrow> comment_row list option settled
     \<Rightarrow> PostCard_state \<Rightarrow> PostCard_state" where
  "handleComment r post currentUserId res likesRes commentsRes s =
     (case truthy_string currentUserId of
        None \<Rightarrow> s
      | Some uid \<Rightarrow>
          (if trim (newComment r) = [] then s
           else
             (let s1 = issue (CommentsInsert (post_id post) uid (trim (newComment r)))
                         (s\<lparr>isLoadingComment := True\<rparr>);
                  s2 = (case res of
                          Rejected e \<Rightarrow>
                            toast_error (message_or e (lit ''Failed to add comment'')) s1
                        | Fulfilled (Some e) \<Rightarrow>
                            toast_error (message_or e (lit ''Failed to add comment'')) s1
                        | Fulfilled None \<Rightarrow>
                            toast_success (lit ''Comment added!'')
                              (fetchLikesAndComments post likesRes commentsRes
                                 (s1\<lparr>newComment := []\<rparr>)))
              in s2\<lparr>isLoadingComment := False\<rparr>)))"

definition handleDelete ::
  "post_row \<Rightarrow> mutation_result \<Rightarrow> PostCard_state \<Rightarrow> PostCard_state" where
  "handleDelete post res s =
     (let s1 = issue (PostsDelete (post_id post)) s in
      case res of
        Rejected e \<Rightarrow> toast_error (message_or e (lit ''Failed to delete post'')) s1
      | Fulfilled (Some e) \<Rightarrow> toast_error (message_or e (lit ''Failed to delete post'')) s1
      | Fulfilled None \<Rightarrow> invoke OnDelete (toast_success (lit ''Post deleted!'') s1))"

text \<open>
  A click on the like button runs the \<open>handleLike\<close> of the render on screen, whose
  snapshot is the current state.
\<close>

definition like_click ::
  "post_row \<Rightarrow> jsstring option \<Rightarrow> mutation_result \<Rightarrow> PostCard_state \<Rightarrow> PostCard_state" where
  "like_click post currentUserId res s = handleLike s post currentUserId res s"

section \<open>Post composer\<close>

record auth_user =
  auth_user_id :: jsstring

record CreatePost_state = effects +
  content :: jsstring
  isLoading_CreatePost :: bool

definition CreatePost_initial :: CreatePost_state where
  "CreatePost_initial =
     \<lparr>calls = [], toasts = [], navigations = [], console_errors = [], callbacks = [],
      content = [], isLoading_CreatePost = False\<rparr>"

text \<open>
  \<open>handleSubmit\<close>. The \<open>try\<close> block ends at the first rejection or \<open>throw\<close>; \<open>catch\<close>
  notifies; \<open>finally\<close> clears the loading flag. \<open>onPostCreated\<close> is a callback prop whose
  invocation is recorded.
\<close>

definition handleSubmit ::
  "CreatePost_state \<Rightarrow> auth_user option settled \<Rightarrow> mutation_result
     \<Rightarrow> CreatePost_state \<Rightarrow> CreatePost_state" where
  "handleSubmit r userRes res s =
     (if trim (content r) = [] then s
      else
        (let s1 = issue AuthGetUser (s\<lparr>isLoading_CreatePost := True\<rparr>);
             s2 = (case userRes of
                     Rejected e \<Rightarrow>
                       toast_error (message_or e (lit ''Failed to create post'')) s1
                   | Fulfilled None \<Rightarrow>
                       toast_error (message_or (Err (Some (lit ''Not authenticated'')))
                                      (lit ''Failed to create post'')) s1
                   | Fulfilled (Some user) \<Rightarrow>
                       (let s3 = issue (PostsInsert (auth_user_id user) (trim (content r))) s1 in
                        case res of
                          Rejected e \<Rightarrow>
                            toast_error (message_or e (lit ''Failed to create post'')) s3
                        | Fulfilled (Some e) \<Rightarrow>
                            toast_error (message_or e (lit ''Failed to create post'')) s3
                        | Fulfilled None \<Rightarrow>
                            invoke OnPostCreated
                              (toast_success (lit ''Post created!'') (s3\<lparr>content := []\<rparr>))))
         in s2\<lparr>isLoading_CreatePost := False\<rparr>))"

section \<open>Feed view\<close>

record Feed_state = effects +
  currentUser_Feed :: "profile_row option"
  posts_Feed :: "post_row list"
  isLoading_Feed :: bool

definition Feed_initial :: Feed_state where
  "Feed_initial =
     \<lparr>calls = [], toasts = [], navigations = [], console_errors = [], callbacks = [],
      currentUser_Feed = None, posts_Feed = [], isLoading_Feed = True\<rparr>"

definition fetchPosts ::
  "(post_row list option \<times> err option) settled \<Rightarrow> Feed_state \<Rightarrow> Feed_state" where
  "fetchPosts postsRes s =
     (let s1 = issue PostsSelectAll (s\<lparr>isLoading_Feed := True\<rparr>);
          s2 = (case postsRes of
                  Rejected e \<Rightarrow> console_error (lit ''Error fetching posts:'') e s1
                | Fulfilled (d, Some e) \<Rightarrow> console_error (lit ''Error fetching posts:'') e s1
                | Fulfilled (d, None) \<Rightarrow> s1\<lparr>posts_Feed := list_or_empty d\<rparr>)
      in s2\<lparr>isLoading_Feed := False\<rparr>)"

text \<open>
  \<open>checkAuth\<close> of the feed has no \<open>try\<close>: a rejected call ends it where it is.
\<close>

definition checkAuth_Feed ::
  "session option settled \<Rightarrow> profile_row option settled
     \<Rightarrow> (post_row list option \<times> err option) settled \<Rightarrow> Feed_state \<Rightarrow> Feed_state" where
  "checkAuth_Feed sessionRes profileRes postsRes s =
     (let s1 = issue AuthGetSession s in
      case sessionRes of
        Rejected e \<Rightarrow> s1
      | Fulfilled None \<Rightarrow> navigate (lit ''/auth'') s1
      | Fulfilled (Some sess) \<Rightarrow>
          (let s2 = issue (ProfilesSelectById (session_user_id sess)) s1 in
           case profileRes of
             Rejected e \<Rightarrow> s2
           | Fulfilled p \<Rightarrow> fetchPosts postsRes (s2\<lparr>currentUser_Feed := p\<rparr>)))"

text \<open>The effect of the first render runs \<open>checkAuth\<close> on the initial cells.\<close>

definition Feed_activate ::
  "session option settled \<Rightarrow> profile_row option settled
     \<Rightarrow> (post_row list option \<times> err option) settled \<Rightarrow> Feed_state" where
  "Feed_activate sessionRes profileRes postsRes =
     checkAuth_Feed sessionRes profileRes postsRes Feed_initial"

section \<open>Profile view\<close>

record Profile_state = effects +
  currentUser_Profile :: "profile_row option"
  profile :: "profile_row option"
  posts_Profile :: "post_row list"
  isFollowing :: bool
  followersCount :: int
  followingCount :: int
  isLoading_Profile :: bool

definition Profile_initial :: Profile_state where
  "Profile_initial =
     \<lparr>calls = [], toasts = [], navigations = [], console_errors = [], callbacks = [],
      currentUser_Profile = None, profile = None, posts_Profile = [], isFollowing = False,
      followersCount = 0, followingCount = 0, isLoading_Profile = True\<rparr>"

text \<open>The results of the five reads of \<open>fetchProfile\<close>, in the order they are awaited.\<close>

record Profile_reads =
  profileRes :: "profile_row option settled"
  postsRes :: "post_row list option settled"
  followersRes :: "follow_row list option settled"
  followingRes :: "follow_row list option settled"
  followRes :: "follow_row option settled"

text \<open>
  The \<open>try\<close> block of \<open>fetchProfile\<close>: the state reached and the error thrown, if any.
  \<open>currentUser\<close> is the constant of the render \<open>r\<close> that created this \<open>fetchProfile\<close>.
\<close>

definition fetchProfile_try ::
  "Profile_state \<Rightarrow> jsstring \<Rightarrow> Profile_reads \<Rightarrow> Profile_state \<Rightarrow> err option \<times> Profile_state" where
  "fetchProfile_try r uid reads s =
     (let s1 = issue (ProfilesSelectById uid) s in
      case profileRes reads of
        Rejected e \<Rightarrow> (Some e, s1)
      | Fulfilled profileData \<Rightarrow>
     (let s2 = issue (PostsSelectByUser uid) (s1\<lparr>profile := profileData\<rparr>) in
      case postsRes reads of
        Rejected e \<Rightarrow> (Some e, s2)
      | Fulfilled postsData \<Rightarrow>
     (let s3 = issue (FollowsSelectByFollowing uid)
                 (s2\<lparr>posts_Profile := list_or_empty postsData\<rparr>) in
      case followersRes reads of
        Rejected e \<Rightarrow> (Some e, s3)
      | Fulfilled followers \<Rightarrow>
     (let s4 = issue (FollowsSelectByFollower uid) s3 in
      case followingRes reads of
        Rejected e \<Rightarrow> (Some e, s4)
      | Fulfilled following \<Rightarrow>
     (let s5 = s4\<lparr>followersCount := length_or_0 followers,
                  followingCount := length_or_0 following\<rparr> in
      case currentUser_Profile r of
        None \<Rightarrow> (None, s5)
      | Some cu \<Rightarrow>
     (let s6 = issue (FollowsSelectByPair (profile_id cu) uid) s5 in
      case followRes reads of
        Rejected e \<Rightarrow> (Some e, s6)
      | Fulfilled followData \<Rightarrow> (None, s6\<lparr>isFollowing := (followData \<noteq> None)\<rparr>)))))))"

definition fetchProfile ::
  "Profile_state \<Rightarrow> jsstring option \<Rightarrow> Profile_reads \<Rightarrow> Profile_state \<Rightarrow> Profile_state" where
  "fetchProfile r userId reads s =
     (case truthy_string userId of
        None \<Rightarrow> s
      | Some uid \<Rightarrow>
          (case fetchProfile_try r uid reads (s\<lparr>isLoading_Profile := True\<rparr>) of
             (None, s') \<Rightarrow> s'\<lparr>isLoading_Profile := False\<rparr>
           | (Some e, s') \<Rightarrow>
               (console_error (lit ''Error fetching profile:'') e s')\<lparr>isLoading_Profile := False\<rparr>))"

text \<open>
  \<open>checkAuth\<close> of the profile view calls the \<open>fetchProfile\<close> of its own render \<open>r\<close>:
  \<open>setCurrentUser\<close> writes the cell, not the constant that this \<open>fetchProfile\<close> reads.
\<close>

definition checkAuth_Profile ::
  "Profile_state \<Rightarrow> jsstring option \<Rightarrow> session option settled \<Rightarrow> profile_row option settled
     \<Rightarrow> Profile_reads \<Rightarrow> Profile_state \<Rightarrow> Profile_state" where
  "checkAuth_Profile r userId sessionRes currentProfileRes reads s =
     (let s1 = issue AuthGetSession s in
      case sessionRes of
        Rejected e \<Rightarrow> s1
      | Fulfilled None \<Rightarrow> navigate (lit ''/auth'') s1
      | Fulfilled (Some sess) \<Rightarrow>
          (let s2 = issue (ProfilesSelectById (session_user_id sess)) s1 in
           case currentProfileRes of
             Rejected e \<Rightarrow> s2
           | Fulfilled currentProfile \<Rightarrow>
               fetchProfile r userId reads (s2\<lparr>currentUser_Profile := currentProfile\<rparr>)))"

text \<open>
  The effect \<open>useEffect(() => { checkAuth(); }, [userId])\<close> runs the \<open>checkAuth\<close> of the
  render that scheduled it: the first render, on the initial cells, when the view is
  entered, and the render on screen when \<open>userId\<close> changes.
\<close>

definition Profile_effect ::
  "jsstring option \<Rightarrow> session option settled \<Rightarrow> profile_row option settled
     \<Rightarrow> Profile_reads \<Rightarrow> Profile_state \<Rightarrow> Profile_state" where
  "Profile_effect userId sessionRes currentProfileRes reads s =
     checkAuth_Profile s userId sessionRes currentProfileRes reads s"

definition Profile_activate ::
  "jsstring option \<Rightarrow> session option settled \<Rightarrow> profile_row option settled
     \<Rightarrow> Profile_reads \<Rightarrow> Profile_state" where
  "Profile_activate userId sessionRes currentProfileRes reads =
     Profile_effect userId sessionRes currentProfileRes reads Profile_initial"

text \<open>
  \<open>handleFollow\<close> awaits the mutation without reading its \<open>error\<close> field, as \<open>handleLike\<close>
  does. \<open>userId\<close> is passed to the client as it is, defined or not.
\<close>

definition handleFollow ::
  "Profile_state \<Rightarrow> jsstring option \<Rightarrow> mutation_result \<Rightarrow> Profile_state \<Rightarrow> Profile_state" where
  "handleFollow r userId res s =
     (case currentUser_Profile r of
        None \<Rightarrow> s
      | Some cu \<Rightarrow>
          (if isFollowing r then
             (let s1 = issue (FollowsDelete (profile_id cu) userId) s in
              case res of
                Rejected e \<Rightarrow>
                  toast_error (message_or e (lit ''Failed to update follow status'')) s1
              | Fulfilled x \<Rightarrow>
                  toast_success (lit ''Unfollowed'')
                    (s1\<lparr>isFollowing := False, followersCount := followersCount s1 - 1\<rparr>))
           else
             (let s1 = issue (FollowsInsert (profile_id cu) userId) s in
              case res of
                Rejected e \<Rightarrow>
                  toast_error (message_or e (lit ''Failed to update follow status'')) s1
              | Fulfilled x \<Rightarrow>
                  toast_success (lit ''Following!'')
                    (s1\<lparr>isFollowing := True, followersCount := followersCount s1 + 1\<rparr>))))"

definition follow_click ::
  "jsstring option \<Rightarrow> mutation_result \<Rightarrow> Profile_state \<Rightarrow> Profile_state" where
  "follow_click userId res s = handleFollow s userId res s"

text \<open>
  The reads of the collections, as opposed to the session calls and the mutations.
\<close>

fun is_data_load :: "remote_call \<Rightarrow> bool" where
  "is_data_load (ProfilesSelectById u) = True"
| "is_data_load PostsSelectAll = True"
| "is_data_load (PostsSelectByUser u) = True"
| "is_data_load (LikesSelectByPost p) = True"
| "is_data_load (LikesSelectByPostUser p u) = True"
| "is_data_load (CommentsSelectByPost p) = True"
| "is_data_load (FollowsSelectByFollowing u) = True"
| "is_data_load (FollowsSelectByFollower u) = True"
| "is_data_load (FollowsSelectByPair u v) = True"
| "is_data_load c = False"

text \<open>
  The post cards a view has on screen, from the conditions of its \<open>return\<close> statements:
  the feed shows a spinner while \<open>currentUser\<close> is null or the posts are loading, the
  profile view while it is loading, and "Profile not found" has no cards.
\<close>

definition Feed_cards :: "Feed_state \<Rightarrow> post_row list" where
  "Feed_cards s =
     (if currentUser_Feed s = None then []
      else if isLoading_Feed s then []
      else posts_Feed s)"

definition Profile_cards :: "Profile_state \<Rightarrow> post_row list" where
  "Profile_cards s =
     (if isLoading_Profile s then []
      else if profile s = None then []
      else posts_Profile s)"

text \<open>
  The error that reaches \<open>catch\<close> in a handler that reads the \<open>error\<close> field of the
  awaited result and throws it (\<open>handleComment\<close>, \<open>handleDelete\<close>, \<open>handleSubmit\<close>).
\<close>

definition thrown :: "mutation_result \<Rightarrow> err option" where
  "thrown res = (case res of Rejected e \<Rightarrow> Some e | Fulfilled x \<Rightarrow> x)"

text \<open>The membership test on \<open>follows\<close> for one (follower, followed) pair.\<close>

fun is_pair_query :: "remote_call \<Rightarrow> bool" where
  "is_pair_query (FollowsSelectByPair a b) = True"
| "is_pair_query c = False"

section \<open>Concrete inputs\<close>

definition post_p1 :: post_row where
  "post_p1 =
     \<lparr>post_id = lit ''p1'', post_content = lit ''hello world'',
      post_created_at = lit ''2024-01-01T00:00:00Z'', post_user_id = lit ''u2'',
      post_profiles_username = lit ''bob'', post_profiles_full_name = None,
      post_profiles_avatar_url = None\<rparr>"

definition card_3_likes :: PostCard_state where
  "card_3_likes = PostCard_initial\<lparr>likesCount := 3\<rparr>"

definition card_with_draft :: PostCard_state where
  "card_with_draft = PostCard_initial\<lparr>newComment := lit ''nice''\<rparr>"

definition card_with_blank_draft :: PostCard_state where
  "card_with_blank_draft = PostCard_initial\<lparr>newComment := [0x0020, 0x0009, 0x000A, 0x00A0, 0x3000]\<rparr>"

definition composer_with_draft :: CreatePost_state where
  "composer_with_draft = CreatePost_initial\<lparr>content := lit ''hello world''\<rparr>"

definition composer_with_blank_draft :: CreatePost_state where
  "composer_with_blank_draft = CreatePost_initial\<lparr>content := [0x0020, 0x0009, 0x000A, 0x00A0, 0x3000]\<rparr>"

definition profile_u1 :: profile_row where
  "profile_u1 =
     \<lparr>profile_id = lit ''u1'', username = lit ''alice'', full_name = None,
      avatar_url = None, bio = None\<rparr>"

definition profile_u2 :: profile_row where
  "profile_u2 =
     \<lparr>profile_id = lit ''u2'', username = lit ''bob'', full_name = None,
      avatar_url = None, bio = None\<rparr>"

definition boom :: err where
  "boom = Err (Some (lit ''boom''))"

text \<open>
  The reads of bob's profile page when alice follows bob: bob has no posts, one
  follower (alice), follows nobody, and the pair (alice, bob) is in \<open>follows\<close>.
\<close>

definition reads_u1_follows_u2 :: Profile_reads where
  "reads_u1_follows_u2 =
     \<lparr>profileRes = Fulfilled (Some profile_u2),
      postsRes = Fulfilled (Some []),
      followersRes = Fulfilled (Some [\<lparr>follower_id = lit ''u1'', following_id = lit ''u2''\<rparr>]),
      followingRes = Fulfilled (Some []),
      followRes = Fulfilled (Some \<lparr>follower_id = lit ''u1'', following_id = lit ''u2''\<rparr>)\<rparr>"

text \<open>The profile view on screen once alice is signed in and looking at bob's page.\<close>

definition profile_view_u1_at_u2 :: Profile_state where
  "profile_view_u1_at_u2 =
     Profile_initial\<lparr>currentUser_Profile := Some profile_u1, profile := Some profile_u2,
                     followersCount := 1, isLoading_Profile := False\<rparr>"

section \<open>Helper lemmas\<close>

lemma lit_Cons_not_Nil: "lit (c # cs) \<noteq> []"
  by (simp add: lit_def)

lemma message_or_lit: "message_or (Err (Some (lit (c # cs)))) d = lit (c # cs)"
  by (simp add: message_or_def lit_def)

lemma truthy_string_lit: "truthy_string (Some (lit (c # cs))) = Some (lit (c # cs))"
  by (simp add: truthy_string_def lit_def)

lemma dropWhile_all_iff: "(\<forall>x\<in>set (dropWhile P xs). P x) \<longleftrightarrow> (\<forall>x\<in>set xs. P x)"
  by (induction xs) auto

lemma trim_empty_iff: "trim t = [] \<longleftrightarrow> list_all isWhiteSpace t"
  unfolding trim_def
  by (simp add: list_all_iff dropWhile_all_iff)

lemmas effect_defs =
  issue_def toast_error_def toast_success_def navigate_def console_error_def invoke_def

lemma trim_lit_nice: "trim (lit ''nice'') = lit ''nice''"
  by (simp add: trim_def lit_def isWhiteSpace_def)

lemma trim_lit_hello: "trim (lit ''hello world'') = lit ''hello world''"
  by (simp add: trim_def lit_def isWhiteSpace_def)

lemma handleSubmit_isLoading:
  "trim (content r) \<noteq> [] \<Longrightarrow> isLoading_CreatePost (handleSubmit r userRes res s) = False"
  by (simp add: handleSubmit_def Let_def)

lemma handleSubmit_user_rejected:
  "trim (content r) \<noteq> [] \<Longrightarrow>
   toasts (handleSubmit r (Rejected e) res s)
     = toasts s @ [ToastError (message_or e (lit ''Failed to create post''))]"
  by (simp add: handleSubmit_def effect_defs)

lemma handleSubmit_no_user:
  "trim (content r) \<noteq> [] \<Longrightarrow>
   toasts (handleSubmit r (Fulfilled None) res s)
     = toasts s @ [ToastError (lit ''Not authenticated'')]"
  by (simp add: handleSubmit_def effect_defs message_or_lit)

lemma handleSubmit_insert_failed:
  "trim (content r) \<noteq> [] \<Longrightarrow> thrown res = Some e \<Longrightarrow>
   toasts (handleSubmit r (Fulfilled (Some user)) res s)
     = toasts s @ [ToastError (message_or e (lit ''Failed to create post''))]"
  by (simp add: handleSubmit_def effect_defs thrown_def split: settled.splits option.splits)

lemma handleLike_rejected:
  "truthy_string currentUserId = Some u \<Longrightarrow>
   toasts (handleLike r post currentUserId (Rejected e) s)
     = toasts s @ [ToastError (message_or e (lit ''Failed to like post''))]
   \<and> isLiked (handleLike r post currentUserId (Rejected e) s) = isLiked s
   \<and> likesCount (handleLike r post currentUserId (Rejected e) s) = likesCount s"
  by (simp add: handleLike_def effect_defs)

lemma handleFollow_rejected:
  "currentUser_Profile r = Some cu \<Longrightarrow>
   toasts (handleFollow r userId (Rejected e) s)
     = toasts s @ [ToastError (message_or e (lit ''Failed to update follow status''))]
   \<and> isFollowing (handleFollow r userId (Rejected e) s) = isFollowing s
   \<and> followersCount (handleFollow r userId (Rejected e) s) = followersCount s"
  by (simp add: handleFollow_def effect_defs)

lemma handleComment_failed:
  "truthy_string currentUserId = Some u \<Longrightarrow> trim (newComment r) \<noteq> [] \<Longrightarrow>
   thrown res = Some e \<Longrightarrow>
   toasts (handleComment r post currentUserId res likesRes commentsRes s)
     = toasts s @ [ToastError (message_or e (lit ''Failed to add comment''))]"
  by (simp add: handleComment_def effect_defs thrown_def split: settled.splits option.splits)

lemma handleDelete_failed:
  "thrown res = Some e \<Longrightarrow>
   toasts (handleDelete post res s)
     = toasts s @ [ToastError (message_or e (lit ''Failed to delete post''))]"
  by (simp add: handleDelete_def effect_defs thrown_def split: settled.splits option.splits)

lemma fetchProfile_try_stale_closure:
  "currentUser_Profile r = None \<Longrightarrow>
   isFollowing (snd (fetchProfile_try r uid reads s)) = isFollowing s
   \<and> filter is_pair_query (calls (snd (fetchProfile_try r uid reads s)))
     = filter is_pair_query (calls s)"
  by (simp add: fetchProfile_try_def effect_defs Let_def split: settled.splits)

lemma fetchProfile_stale_closure:
  assumes "currentUser_Profile r = None"
  shows "isFollowing (fetchProfile r userId reads s) = isFollowing s
         \<and> filter is_pair_query (calls (fetchProfile r userId reads s))
             = filter is_pair_query (calls s)"
proof (cases "truthy_string userId")
  case None
  then show ?thesis by (simp add: fetchProfile_def)
next
  case (Some uid)
  obtain ex s' where t: "fetchProfile_try r uid reads (s\<lparr>isLoading_Profile := True\<rparr>) = (ex, s')"
    by (cases "fetchProfile_try r uid reads (s\<lparr>isLoading_Profile := True\<rparr>)") auto
  from fetchProfile_try_stale_closure [OF assms, of uid reads "s\<lparr>isLoading_Profile := True\<rparr>"] t
  have "isFollowing s' = isFollowing s"
    and "filter is_pair_query (calls s') = filter is_pair_query (calls s)"
    by simp_all
  with Some t show ?thesis
    by (cases ex) (simp_all add: fetchProfile_def effect_defs)
qed

lemma Profile_activate_never_checks_follow:
  "isFollowing (Profile_activate userId sessionRes currentProfileRes reads) = False
   \<and> filter is_pair_query
        (calls (Profile_activate userId sessionRes currentProfileRes reads)) = []"
proof -
  have r: "currentUser_Profile Profile_initial = None"
    by (simp add: Profile_initial_def)
  have i: "isFollowing Profile_initial = False" "calls Profile_initial = []"
    by (simp_all add: Profile_initial_def)
  show ?thesis
    by (simp add: Profile_activate_def Profile_effect_def checkAuth_Profile_def
        fetchProfile_stale_closure [OF r] effect_defs i Let_def
        split: settled.splits option.splits)
qed

lemma later_render_checks_follow:
  "isFollowing
     (Profile_effect (Some (lit ''u2'')) (Fulfilled (Some \<lparr>session_user_id = lit ''u1''\<rparr>))
        (Fulfilled (Some profile_u1)) reads_u1_follows_u2 profile_view_u1_at_u2) = True
   \<and> calls
       (Profile_effect (Some (lit ''u2'')) (Fulfilled (Some \<lparr>session_user_id = lit ''u1''\<rparr>))
          (Fulfilled (Some profile_u1)) reads_u1_follows_u2 profile_view_u1_at_u2)
       = [AuthGetSession, ProfilesSelectById (lit ''u1''), ProfilesSelectById (lit ''u2''),
          PostsSelectByUser (lit ''u2''), FollowsSelectByFollowing (lit ''u2''),
          FollowsSelectByFollower (lit ''u2''), FollowsSelectByPair (lit ''u1'') (lit ''u2'')]"
  by (simp add: Profile_effect_def checkAuth_Profile_def fetchProfile_def
      fetchProfile_try_def truthy_string_lit effect_defs Profile_initial_def
      profile_view_u1_at_u2_def profile_u1_def
      reads_u1_follows_u2_def length_or_0_def list_or_empty_def)

lemma fetchProfile_checks_follow:
  assumes "truthy_string userId = Some uid" and "currentUser_Profile r = Some cu"
    and "profileRes reads = Fulfilled a" and "postsRes reads = Fulfilled b"
    and "followersRes reads = Fulfilled c" and "followingRes reads = Fulfilled d"
    and "followRes reads = Fulfilled followData"
  shows "isFollowing (fetchProfile r userId reads s) = (followData \<noteq> None)
         \<and> calls (fetchProfile r userId reads s)
             = calls s @ [ProfilesSelectById uid, PostsSelectByUser uid,
                          FollowsSelectByFollowing uid, FollowsSelectByFollower uid,
                          FollowsSelectByPair (profile_id cu) uid]"
  using assms by (simp add: fetchProfile_def fetchProfile_try_def effect_defs)

section \<open>Like toggle\<close>

text \<open>
  Claim C1. Two like toggles in succession, each run from the render that follows the
  previous update and each with a successful remote call, return the card to its
  original \<open>isLiked\<close> and its original \<open>likesCount\<close>. This holds for every card state and
  every viewer id; agreement of the card with the remote store is not needed.
\<close>

theorem like_toggle_twice:
  "isLiked (like_click post currentUserId (Fulfilled None)
              (like_click post currentUserId (Fulfilled None) s)) = isLiked s
   \<and> likesCount (like_click post currentUserId (Fulfilled None)
                   (like_click post currentUserId (Fulfilled None) s)) = likesCount s"
  by (simp add: like_click_def handleLike_def effect_defs split: option.splits)

text \<open>
  Claim C7. On a card with \<open>isLiked = false\<close> and \<open>likesCount = 3\<close> and a known viewer
  id, a successful like toggle sets \<open>isLiked\<close> to true and \<open>likesCount\<close> to 4; the only
  remote call it issues is the insertion into \<open>likes\<close>, so no collection is read again.
\<close>

theorem like_from_three:
  assumes "truthy_string currentUserId = Some u" and "isLiked s = False" and "likesCount s = 3"
  shows "isLiked (like_click post currentUserId (Fulfilled None) s) = True
         \<and> likesCount (like_click post currentUserId (Fulfilled None) s) = 4
         \<and> calls (like_click post currentUserId (Fulfilled None) s)
             = calls s @ [LikesInsert (post_id post) u]
         \<and> filter is_data_load (calls (like_click post currentUserId (Fulfilled None) s))
             = filter is_data_load (calls s)"
  using assms by (simp add: like_click_def handleLike_def effect_defs)

theorem like_from_three_witness:
  "truthy_string (Some (lit ''u1'')) = Some (lit ''u1'')
   \<and> isLiked card_3_likes = False \<and> likesCount card_3_likes = 3
   \<and> isLiked (like_click post_p1 (Some (lit ''u1'')) (Fulfilled None) card_3_likes) = True
   \<and> likesCount (like_click post_p1 (Some (lit ''u1'')) (Fulfilled None) card_3_likes) = 4
   \<and> calls (like_click post_p1 (Some (lit ''u1'')) (Fulfilled None) card_3_likes)
       = [LikesInsert (lit ''p1'') (lit ''u1'')]"
proof -
  have v: "truthy_string (Some (lit ''u1'')) = Some (lit ''u1'')"
    by (rule truthy_string_lit)
  have l: "isLiked card_3_likes = False" and n: "likesCount card_3_likes = 3"
    by (simp_all add: card_3_likes_def PostCard_initial_def)
  show ?thesis
    using like_from_three [OF v l n, of post_p1] v l n
    by (simp add: card_3_likes_def PostCard_initial_def post_p1_def)
qed

text \<open>
  Claim C10. \<open>likesCount\<close> minus one when \<open>isLiked\<close> holds is the same before and after a
  successful like toggle; and with a known viewer id the toggle flips \<open>isLiked\<close> and
  moves \<open>likesCount\<close> with it, up by one when \<open>isLiked\<close> becomes true and down by one when
  it becomes false.
\<close>

theorem like_toggle_invariant:
  "likesCount (like_click post currentUserId (Fulfilled None) s)
       - (if isLiked (like_click post currentUserId (Fulfilled None) s) then 1 else 0)
     = likesCount s - (if isLiked s then 1 else 0)
   \<and> (truthy_string currentUserId = Some u \<longrightarrow>
        isLiked (like_click post currentUserId (Fulfilled None) s) = (\<not> isLiked s)
        \<and> likesCount (like_click post currentUserId (Fulfilled None) s)
            = (if isLiked (like_click post currentUserId (Fulfilled None) s)
               then likesCount s + 1 else likesCount s - 1))"
  by (simp add: like_click_def handleLike_def effect_defs split: option.splits)

theorem like_toggle_invariant_witness:
  "truthy_string (Some (lit ''u1'')) = Some (lit ''u1'')
   \<and> likesCount card_3_likes - (if isLiked card_3_likes then 1 else 0) = 3
   \<and> likesCount (like_click post_p1 (Some (lit ''u1'')) (Fulfilled None) card_3_likes)
       - (if isLiked (like_click post_p1 (Some (lit ''u1'')) (Fulfilled None) card_3_likes)
          then 1 else 0) = 3
   \<and> isLiked (like_click post_p1 (Some (lit ''u1'')) (Fulfilled None) card_3_likes)
   \<and> likesCount (like_click post_p1 (Some (lit ''u1'')) (Fulfilled None) card_3_likes) = 4"
proof -
  have v: "truthy_string (Some (lit ''u1'')) = Some (lit ''u1'')"
    by (rule truthy_string_lit)
  have l: "isLiked card_3_likes = False" and n: "likesCount card_3_likes = 3"
    by (simp_all add: card_3_likes_def PostCard_initial_def)
  show ?thesis
    using like_toggle_invariant [of post_p1 "Some (lit ''u1'')" card_3_likes "lit ''u1''"] v l n
    by simp
qed

section \<open>Follow toggle\<close>

text \<open>
  Claim C6. Two follow toggles in succession, each run from the render that follows the
  previous update and each with a successful remote call, return the profile view to
  its original \<open>isFollowing\<close> and its original \<open>followersCount\<close>.
\<close>

theorem follow_toggle_twice:
  "isFollowing (follow_click userId (Fulfilled None)
                  (follow_click userId (Fulfilled None) s)) = isFollowing s
   \<and> followersCount (follow_click userId (Fulfilled None)
                       (follow_click userId (Fulfilled None) s)) = followersCount s"
  by (simp add: follow_click_def handleFollow_def effect_defs split: option.splits)

section \<open>Activation without a session\<close>

text \<open>
  Claim C4. When \<open>getSession\<close> yields no session, \<open>checkAuth\<close> of the feed and of the
  profile view navigates to \<open>/auth\<close> and issues no call besides \<open>getSession\<close>, hence no
  read of \<open>profiles\<close>, \<open>posts\<close>, \<open>likes\<close>, \<open>comments\<close> or \<open>follows\<close>; this holds from
  every state in which the effect runs. On first activation the view then shows no post
  card, so no card reads \<open>likes\<close> or \<open>comments\<close> either.
\<close>

theorem no_session_redirects:
  "navigations (checkAuth_Feed (Fulfilled None) profileRes0 postsRes0 fs)
     = navigations fs @ [lit ''/auth'']
   \<and> calls (checkAuth_Feed (Fulfilled None) profileRes0 postsRes0 fs)
       = calls fs @ [AuthGetSession]
   \<and> filter is_data_load (calls (checkAuth_Feed (Fulfilled None) profileRes0 postsRes0 fs))
       = filter is_data_load (calls fs)
   \<and> navigations (Profile_effect userId (Fulfilled None) currentProfileRes reads ps)
       = navigations ps @ [lit ''/auth'']
   \<and> calls (Profile_effect userId (Fulfilled None) currentProfileRes reads ps)
       = calls ps @ [AuthGetSession]
   \<and> filter is_data_load (calls (Profile_effect userId (Fulfilled None) currentProfileRes reads ps))
       = filter is_data_load (calls ps)
   \<and> calls (Feed_activate (Fulfilled None) profileRes0 postsRes0) = [AuthGetSession]
   \<and> Feed_cards (Feed_activate (Fulfilled None) profileRes0 postsRes0) = []
   \<and> calls (Profile_activate userId (Fulfilled None) currentProfileRes reads) = [AuthGetSession]
   \<and> Profile_cards (Profile_activate userId (Fulfilled None) currentProfileRes reads) = []"
  by (simp add: checkAuth_Feed_def Profile_effect_def checkAuth_Profile_def Feed_activate_def
      Profile_activate_def Feed_cards_def Profile_cards_def Feed_initial_def Profile_initial_def
      effect_defs)

section \<open>Blank content\<close>

text \<open>
  Claim C5. When the content of the composer, or the draft of the comment form,
  is empty or made of whitespace only, submitting returns the state as it was: the
  field is unchanged and the log of remote calls gains nothing, so no row is inserted
  into \<open>posts\<close> or \<open>comments\<close>. (\<open>e.preventDefault()\<close> acts on the DOM event only.)
\<close>

theorem blank_content_is_noop:
  assumes "list_all isWhiteSpace (content r)" and "list_all isWhiteSpace (newComment c)"
  shows "handleSubmit r userRes res s = s
         \<and> handleComment c post currentUserId res' likesRes commentsRes t = t"
  using assms
  by (simp add: handleSubmit_def handleComment_def trim_empty_iff split: option.splits)

theorem blank_content_is_noop_witness:
  "list_all isWhiteSpace (content composer_with_blank_draft)
   \<and> list_all isWhiteSpace (newComment card_with_blank_draft)
   \<and> handleSubmit composer_with_blank_draft (Fulfilled (Some \<lparr>auth_user_id = lit ''u1''\<rparr>))
        (Fulfilled None) composer_with_blank_draft = composer_with_blank_draft
   \<and> handleComment card_with_blank_draft post_p1 (Some (lit ''u1'')) (Fulfilled None)
        (Fulfilled None) (Fulfilled None) card_with_blank_draft = card_with_blank_draft
   \<and> calls composer_with_blank_draft = [] \<and> calls card_with_blank_draft = []"
proof -
  have a: "list_all isWhiteSpace (content composer_with_blank_draft)"
    by (simp add: composer_with_blank_draft_def CreatePost_initial_def isWhiteSpace_def)
  have b: "list_all isWhiteSpace (newComment card_with_blank_draft)"
    by (simp add: card_with_blank_draft_def PostCard_initial_def isWhiteSpace_def)
  have c: "calls composer_with_blank_draft = []" "calls card_with_blank_draft = []"
    by (simp_all add: composer_with_blank_draft_def CreatePost_initial_def
        card_with_blank_draft_def PostCard_initial_def)
  show ?thesis
    using blank_content_is_noop [OF a b] a b c by simp
qed

section \<open>Post composer: loading flag and notification\<close>

text \<open>
  Claim C8. For non-blank content and every outcome of the user lookup and of the
  insertion, \<open>handleSubmit\<close> ends with \<open>isLoading = false\<close>; and when the lookup rejects,
  finds no user, or the insertion rejects or returns an error, the handler adds an error
  notification with the failure's message or the fallback "Failed to create post".
\<close>

theorem submit_clears_loading:
  assumes "trim (content r) \<noteq> []"
  shows "isLoading_CreatePost (handleSubmit r userRes res s) = False
         \<and> (userRes = Rejected e \<longrightarrow>
              toasts (handleSubmit r userRes res s)
                = toasts s @ [ToastError (message_or e (lit ''Failed to create post''))])
         \<and> (userRes = Fulfilled None \<longrightarrow>
              toasts (handleSubmit r userRes res s)
                = toasts s @ [ToastError (lit ''Not authenticated'')])
         \<and> (userRes = Fulfilled (Some user) \<and> thrown res = Some e \<longrightarrow>
              toasts (handleSubmit r userRes res s)
                = toasts s @ [ToastError (message_or e (lit ''Failed to create post''))])"
  using assms
  by (simp add: handleSubmit_isLoading handleSubmit_user_rejected handleSubmit_no_user
      handleSubmit_insert_failed)

theorem submit_clears_loading_witness:
  "trim (content composer_with_draft) \<noteq> []
   \<and> thrown (Fulfilled (Some boom)) = Some boom
   \<and> isLoading_CreatePost
       (handleSubmit composer_with_draft (Fulfilled (Some \<lparr>auth_user_id = lit ''u1''\<rparr>))
          (Fulfilled (Some boom)) composer_with_draft) = False
   \<and> toasts (handleSubmit composer_with_draft (Fulfilled (Some \<lparr>auth_user_id = lit ''u1''\<rparr>))
               (Fulfilled (Some boom)) composer_with_draft)
       = [ToastError (lit ''boom'')]"
proof -
  have a: "trim (content composer_with_draft) \<noteq> []"
    by (simp add: composer_with_draft_def CreatePost_initial_def trim_lit_hello lit_Cons_not_Nil)
  have b: "thrown (Fulfilled (Some boom)) = Some boom"
    by (simp add: thrown_def)
  have c: "toasts composer_with_draft = []"
    by (simp add: composer_with_draft_def CreatePost_initial_def)
  have d: "message_or boom (lit ''Failed to create post'') = lit ''boom''"
    by (simp add: boom_def message_or_lit)
  show ?thesis
    using submit_clears_loading [OF a, of "Fulfilled (Some \<lparr>auth_user_id = lit ''u1''\<rparr>)"
        "Fulfilled (Some boom)" composer_with_draft boom "\<lparr>auth_user_id = lit ''u1''\<rparr>"]
      a b c d
    by simp
qed

section \<open>Failed comment\<close>

text \<open>
  Claim C9. With a known viewer and a non-blank draft, when the insertion into
  \<open>comments\<close> fails (it rejects or returns an error) the draft \<open>newComment\<close> is what it was
  before, the only remote call issued is the insertion, so likes and comments are not
  read again, and the counters and the comment list are untouched; the draft is cleared
  when the insertion succeeds.
\<close>

theorem failed_comment_keeps_draft:
  assumes "truthy_string currentUserId = Some u" and "trim (newComment r) \<noteq> []"
  shows "(thrown res = Some e \<longrightarrow>
            newComment (handleComment r post currentUserId res likesRes commentsRes s)
              = newComment s
            \<and> calls (handleComment r post currentUserId res likesRes commentsRes s)
                = calls s @ [CommentsInsert (post_id post) u (trim (newComment r))]
            \<and> filter is_data_load
                 (calls (handleComment r post currentUserId res likesRes commentsRes s))
                = filter is_data_load (calls s)
            \<and> likesCount (handleComment r post currentUserId res likesRes commentsRes s)
                = likesCount s
            \<and> commentsCount (handleComment r post currentUserId res likesRes commentsRes s)
                = commentsCount s
            \<and> comments (handleComment r post currentUserId res likesRes commentsRes s)
                = comments s)
         \<and> (thrown res = None \<longrightarrow>
              newComment (handleComment r post currentUserId res likesRes commentsRes s) = [])"
  using assms
  by (simp add: handleComment_def fetchLikesAndComments_def effect_defs thrown_def Let_def
      split: settled.splits option.splits)

theorem failed_comment_keeps_draft_witness:
  "truthy_string (Some (lit ''u1'')) = Some (lit ''u1'')
   \<and> trim (newComment card_with_draft) \<noteq> []
   \<and> thrown (Fulfilled (Some boom)) = Some boom
   \<and> thrown (Fulfilled None) = None
   \<and> newComment (handleComment card_with_draft post_p1 (Some (lit ''u1''))
                    (Fulfilled (Some boom)) (Fulfilled None) (Fulfilled None) card_with_draft)
       = lit ''nice''
   \<and> calls (handleComment card_with_draft post_p1 (Some (lit ''u1''))
               (Fulfilled (Some boom)) (Fulfilled None) (Fulfilled None) card_with_draft)
       = [CommentsInsert (lit ''p1'') (lit ''u1'') (lit ''nice'')]
   \<and> newComment (handleComment card_with_draft post_p1 (Some (lit ''u1''))
                    (Fulfilled None) (Fulfilled None) (Fulfilled None) card_with_draft) = []"
proof -
  have v: "truthy_string (Some (lit ''u1'')) = Some (lit ''u1'')"
    by (rule truthy_string_lit)
  have d: "newComment card_with_draft = lit ''nice''" and c: "calls card_with_draft = []"
    by (simp_all add: card_with_draft_def PostCard_initial_def)
  have n: "trim (newComment card_with_draft) \<noteq> []"
    by (simp add: d trim_lit_nice lit_Cons_not_Nil)
  have f: "thrown (Fulfilled (Some boom)) = Some boom" and g: "thrown (Fulfilled None) = None"
    by (simp_all add: thrown_def)
  have p: "post_id post_p1 = lit ''p1''"
    by (simp add: post_p1_def)
  show ?thesis
    using failed_comment_keeps_draft [OF v n, of "Fulfilled (Some boom)" boom post_p1
        "Fulfilled None" "Fulfilled None" card_with_draft]
      failed_comment_keeps_draft [OF v n, of "Fulfilled None" boom post_p1
        "Fulfilled None" "Fulfilled None" card_with_draft]
      v n f g
    by (simp add: d c p trim_lit_nice)
qed

section \<open>Failed mutations\<close>

text \<open>
  Claim C2 as stated fails on a rejected like. On a card with \<open>isLiked = false\<close> and
  \<open>likesCount = 3\<close> the optimistic update would give \<open>isLiked = true\<close> and \<open>likesCount = 4\<close>;
  \<open>handleLike\<close> notifies, but it updates the cells only after the awaited call returns, so
  the card stays at \<open>false\<close> and 3.
\<close>

theorem rejected_like_counterexample:
  "\<not> (toasts (like_click post_p1 (Some (lit ''u1'')) (Rejected boom) card_3_likes)
        = [ToastError (lit ''boom'')]
      \<and> isLiked (like_click post_p1 (Some (lit ''u1'')) (Rejected boom) card_3_likes) = True
      \<and> likesCount (like_click post_p1 (Some (lit ''u1'')) (Rejected boom) card_3_likes) = 4)
   \<and> toasts (like_click post_p1 (Some (lit ''u1'')) (Rejected boom) card_3_likes)
       = [ToastError (lit ''boom'')]
   \<and> isLiked (like_click post_p1 (Some (lit ''u1'')) (Rejected boom) card_3_likes) = False
   \<and> likesCount (like_click post_p1 (Some (lit ''u1'')) (Rejected boom) card_3_likes) = 3"
proof -
  have v: "truthy_string (Some (lit ''u1'')) = Some (lit ''u1'')"
    by (rule truthy_string_lit)
  have m: "message_or boom (lit ''Failed to like post'') = lit ''boom''"
    by (simp add: boom_def message_or_lit)
  show ?thesis
    using handleLike_rejected [OF v, of card_3_likes post_p1 boom card_3_likes]
    by (simp add: like_click_def m card_3_likes_def PostCard_initial_def)
qed

text \<open>
  Claim C2, amended. A comment, post-create or delete mutation whose remote call rejects
  or returns an error, and a like or follow mutation whose remote call rejects, adds an
  error notification with the failure's message or the handler's fallback. A rejected
  like or follow leaves \<open>isLiked\<close>, \<open>likesCount\<close>, \<open>isFollowing\<close> and \<open>followersCount\<close> at
  their values before the action: the local update runs only after the awaited call
  returns, so nothing was applied and nothing is rolled back.
\<close>

theorem mutation_failure_notifies:
  "(truthy_string currentUserId = Some u \<longrightarrow>
      toasts (handleLike r post currentUserId (Rejected e) s)
        = toasts s @ [ToastError (message_or e (lit ''Failed to like post''))]
      \<and> isLiked (handleLike r post currentUserId (Rejected e) s) = isLiked s
      \<and> likesCount (handleLike r post currentUserId (Rejected e) s) = likesCount s)
   \<and> (currentUser_Profile pr = Some cu \<longrightarrow>
        toasts (handleFollow pr userId (Rejected e) ps)
          = toasts ps @ [ToastError (message_or e (lit ''Failed to update follow status''))]
        \<and> isFollowing (handleFollow pr userId (Rejected e) ps) = isFollowing ps
        \<and> followersCount (handleFollow pr userId (Rejected e) ps) = followersCount ps)
   \<and> (truthy_string viewer = Some v \<and> trim (newComment cr) \<noteq> [] \<and> thrown res = Some e \<longrightarrow>
        toasts (handleComment cr cpost viewer res likesRes commentsRes cs)
          = toasts cs @ [ToastError (message_or e (lit ''Failed to add comment''))])
   \<and> (trim (content wr) \<noteq> [] \<and> thrown res = Some e \<longrightarrow>
        toasts (handleSubmit wr (Fulfilled (Some user)) res ws)
          = toasts ws @ [ToastError (message_or e (lit ''Failed to create post''))])
   \<and> (thrown res = Some e \<longrightarrow>
        toasts (handleDelete dpost res ds)
          = toasts ds @ [ToastError (message_or e (lit ''Failed to delete post''))])"
  by (simp add: handleLike_rejected handleFollow_rejected handleComment_failed
      handleSubmit_insert_failed handleDelete_failed)

theorem mutation_failure_notifies_witness:
  "truthy_string (Some (lit ''u1'')) = Some (lit ''u1'')
   \<and> currentUser_Profile profile_view_u1_at_u2 = Some profile_u1
   \<and> trim (newComment card_with_draft) \<noteq> []
   \<and> trim (content composer_with_draft) \<noteq> []
   \<and> thrown (Rejected boom) = Some boom
   \<and> toasts (handleLike card_3_likes post_p1 (Some (lit ''u1'')) (Rejected boom) card_3_likes)
       = [ToastError (lit ''boom'')]
   \<and> isLiked (handleLike card_3_likes post_p1 (Some (lit ''u1'')) (Rejected boom) card_3_likes)
       = False
   \<and> likesCount (handleLike card_3_likes post_p1 (Some (lit ''u1'')) (Rejected boom) card_3_likes)
       = 3
   \<and> toasts (handleFollow profile_view_u1_at_u2 (Some (lit ''u2'')) (Rejected boom)
               profile_view_u1_at_u2) = [ToastError (lit ''boom'')]
   \<and> isFollowing (handleFollow profile_view_u1_at_u2 (Some (lit ''u2'')) (Rejected boom)
                    profile_view_u1_at_u2) = False
   \<and> followersCount (handleFollow profile_view_u1_at_u2 (Some (lit ''u2'')) (Rejected boom)
                       profile_view_u1_at_u2) = 1
   \<and> toasts (handleComment card_with_draft post_p1 (Some (lit ''u1'')) (Rejected boom)
               (Fulfilled None) (Fulfilled None) card_with_draft) = [ToastError (lit ''boom'')]
   \<and> toasts (handleSubmit composer_with_draft (Fulfilled (Some \<lparr>auth_user_id = lit ''u1''\<rparr>))
               (Rejected boom) composer_with_draft) = [ToastError (lit ''boom'')]
   \<and> toasts (handleDelete post_p1 (Rejected boom) card_3_likes) = [ToastError (lit ''boom'')]"
proof -
  have v: "truthy_string (Some (lit ''u1'')) = Some (lit ''u1'')"
    by (rule truthy_string_lit)
  have cu: "currentUser_Profile profile_view_u1_at_u2 = Some profile_u1"
    by (simp add: profile_view_u1_at_u2_def Profile_initial_def)
  have n: "trim (newComment card_with_draft) \<noteq> []"
    by (simp add: card_with_draft_def PostCard_initial_def trim_lit_nice lit_Cons_not_Nil)
  have w: "trim (content composer_with_draft) \<noteq> []"
    by (simp add: composer_with_draft_def CreatePost_initial_def trim_lit_hello lit_Cons_not_Nil)
  have f: "thrown (Rejected boom) = Some boom"
    by (simp add: thrown_def)
  have m: "message_or boom d = lit ''boom''" for d
    by (simp add: boom_def message_or_lit)
  have st: "toasts card_3_likes = []" "isLiked card_3_likes = False" "likesCount card_3_likes = 3"
    "toasts profile_view_u1_at_u2 = []" "isFollowing profile_view_u1_at_u2 = False"
    "followersCount profile_view_u1_at_u2 = 1" "toasts card_with_draft = []"
    "toasts composer_with_draft = []"
    by (simp_all add: card_3_likes_def card_with_draft_def PostCard_initial_def
        profile_view_u1_at_u2_def Profile_initial_def composer_with_draft_def
        CreatePost_initial_def)
  show ?thesis
    using mutation_failure_notifies [of "Some (lit ''u1'')" "lit ''u1''" card_3_likes post_p1
        boom card_3_likes profile_view_u1_at_u2 profile_u1 "Some (lit ''u2'')"
        profile_view_u1_at_u2 "Some (lit ''u1'')" "lit ''u1''" card_with_draft "Rejected boom"
        post_p1 "Fulfilled None" "Fulfilled None" card_with_draft composer_with_draft
        "\<lparr>auth_user_id = lit ''u1''\<rparr>" composer_with_draft post_p1 card_3_likes]
      v cu n w f
    by (simp add: m st)
qed

section \<open>Follow state on activation of the profile view\<close>

text \<open>
  Claim C3 says that on activation with an active session the profile view, once the
  target profile, its posts and both counts are loaded, reads \<open>follows\<close> for the pair
  (viewer, target) and sets \<open>isFollowing\<close> from it. On first activation alice (u1) is signed
  in, her profile row loads, she opens bob's page (u2), and the pair (u1, u2) is in
  \<open>follows\<close>. The \<open>fetchProfile\<close> that \<open>checkAuth\<close> calls belongs to the first render, whose
  \<open>currentUser\<close> is null, so the test \<open>if (currentUser)\<close> fails: the pair is never read
  and \<open>isFollowing\<close> stays false, although \<open>currentUser\<close> has been set to alice's row.
\<close>

theorem first_activation_skips_follow_check:
  "currentUser_Profile
     (Profile_activate (Some (lit ''u2'')) (Fulfilled (Some \<lparr>session_user_id = lit ''u1''\<rparr>))
        (Fulfilled (Some profile_u1)) reads_u1_follows_u2) = Some profile_u1
   \<and> followersCount
       (Profile_activate (Some (lit ''u2'')) (Fulfilled (Some \<lparr>session_user_id = lit ''u1''\<rparr>))
          (Fulfilled (Some profile_u1)) reads_u1_follows_u2) = 1
   \<and> isFollowing
       (Profile_activate (Some (lit ''u2'')) (Fulfilled (Some \<lparr>session_user_id = lit ''u1''\<rparr>))
          (Fulfilled (Some profile_u1)) reads_u1_follows_u2) = False
   \<and> calls
       (Profile_activate (Some (lit ''u2'')) (Fulfilled (Some \<lparr>session_user_id = lit ''u1''\<rparr>))
          (Fulfilled (Some profile_u1)) reads_u1_follows_u2)
       = [AuthGetSession, ProfilesSelectById (lit ''u1''), ProfilesSelectById (lit ''u2''),
          PostsSelectByUser (lit ''u2''), FollowsSelectByFollowing (lit ''u2''),
          FollowsSelectByFollower (lit ''u2'')]"
  by (simp add: Profile_activate_def Profile_effect_def checkAuth_Profile_def fetchProfile_def
      fetchProfile_try_def truthy_string_lit effect_defs Profile_initial_def
      reads_u1_follows_u2_def length_or_0_def list_or_empty_def)

end
